theory Spec2Isabelle
  imports Main "HOL-Library.Word" "HOL-Library.Signed_Division" "HOL-Library.Monad_Syntax"
begin

unbundle bit_operations_syntax

section \<open>Machine model\<close>

text \<open>
  The allocator of \<^verbatim>\<open>mm.c\<close> is compiled for a 32-bit target (\<^verbatim>\<open>-m32\<close>): an \<^verbatim>\<open>int\<close>, a
  \<^verbatim>\<open>size_t\<close> and a pointer are all 32-bit words. Arithmetic wraps around; the comparisons
  of \<^verbatim>\<open>int\<close> values are signed (\<open>\<le>s\<close>, \<open><s\<close>), pointer comparisons are equalities.

  Memory is a function from byte addresses to 32-bit cells. Every access of the program is
  an access to an \<^verbatim>\<open>int\<close> or to a pointer, so a cell is named by the address of its first
  byte. An access outside the region obtained from \<^verbatim>\<open>mem_sbrk\<close>, or at an address that is not
  a multiple of 4, is undefined behaviour in C: it is the value \<open>None\<close> of the model, as
  is a dereference of the null pointer.
\<close>

type_synonym word32 = "32 word"
type_synonym addr = "32 word"

abbreviation NULL :: addr where
  "NULL \<equiv> 0"

record state =
  mem :: "addr \<Rightarrow> word32"
  mem_heap :: addr
  mem_brk :: addr
  mem_max_addr :: addr
  heap_blocks :: addr
  free_headp :: addr
  free_tailp :: addr

definition in_heap :: "state \<Rightarrow> addr \<Rightarrow> bool" where
  "in_heap s a \<longleftrightarrow>
     unat (mem_heap s) \<le> unat a \<and> unat a + 4 \<le> unat (mem_brk s) \<and> 4 dvd unat a"

definition load :: "state \<Rightarrow> addr \<Rightarrow> word32 option" where
  "load s a = (if in_heap s a then Some (mem s a) else None)"

definition store :: "addr \<Rightarrow> word32 \<Rightarrow> state \<Rightarrow> state option" where
  "store a v s = (if in_heap s a then Some (s\<lparr>mem := (mem s)(a := v)\<rparr>) else None)"

text \<open>
  Modelled from the spec: the growth primitive \<^verbatim>\<open>mem_sbrk\<close> of \<^verbatim>\<open>memlib.h\<close>, which is not
  part of the sources. Section 6 of the specification describes it as
  \<^verbatim>\<open>grow(n) -> start_address | failure\<close>, extending the region contiguously upward from its
  current end. The capacity of the region is the field \<open>mem_max_addr\<close>; a failure is
  the pointer \<open>-1\<close>, which is what \<^verbatim>\<open>extend_heap\<close> and \<^verbatim>\<open>mm_init\<close> test for, and leaves
  the state as it was.
\<close>

definition mem_sbrk :: "word32 \<Rightarrow> state \<Rightarrow> addr \<times> state" where
  "mem_sbrk incr s =
     (if incr <s 0 \<or> unat (mem_max_addr s) < unat (mem_brk s) + unat incr
      then (- 1, s)
      else (mem_brk s, s\<lparr>mem_brk := mem_brk s + incr\<rparr>))"

text \<open>
  \<^verbatim>\<open>memcpy\<close> of \<^verbatim>\<open>string.h\<close>. The only call copies a block size, which is a multiple of 8,
  between payload addresses: the copy is made cell by cell, in ascending order.
\<close>

fun memcpy_words :: "nat \<Rightarrow> addr \<Rightarrow> addr \<Rightarrow> state \<Rightarrow> state option" where
  "memcpy_words 0 dst src s = Some s"
| "memcpy_words (Suc k) dst src s =
     do { v \<leftarrow> load s src;
          s1 \<leftarrow> store dst v s;
          memcpy_words k (dst + 4) (src + 4) s1 }"

definition memcpy :: "addr \<Rightarrow> addr \<Rightarrow> word32 \<Rightarrow> state \<Rightarrow> state option" where
  "memcpy dst src n s = memcpy_words (unat n div 4) dst src s"

section \<open>Block headers and footers\<close>

definition get_size :: "state \<Rightarrow> addr \<Rightarrow> word32 option" where
  "get_size s bp = do { v \<leftarrow> load s bp; Some (v AND NOT 7) }"

definition get_allocated :: "state \<Rightarrow> addr \<Rightarrow> word32 option" where
  "get_allocated s bp = do { v \<leftarrow> load s bp; Some (v AND 1) }"

definition set_header :: "addr \<Rightarrow> word32 \<Rightarrow> word32 \<Rightarrow> state \<Rightarrow> state option" where
  "set_header bp sz allocated s = store bp (sz OR allocated) s"

definition set_footer :: "addr \<Rightarrow> word32 \<Rightarrow> word32 \<Rightarrow> state \<Rightarrow> state option" where
  "set_footer bp sz allocated s =
     do { cur \<leftarrow> get_size s bp;
          set_header (bp + cur - 4) sz allocated s }"

definition get_payload_addr :: "addr \<Rightarrow> addr" where
  "get_payload_addr bp = bp + 4"

definition get_prev :: "state \<Rightarrow> addr \<Rightarrow> addr option" where
  "get_prev s bp =
     do { previous_size \<leftarrow> get_size s (bp - 4);
          Some (bp - previous_size) }"

definition get_next :: "state \<Rightarrow> addr \<Rightarrow> addr option" where
  "get_next s bp =
     do { this_size \<leftarrow> get_size s bp;
          Some (bp + this_size) }"

section \<open>Links of the free list\<close>

text \<open>
  A free block is read through \<^verbatim>\<open>FreeBlockHeader\<close>: the header at offset 0, \<^verbatim>\<open>prev_free\<close>
  at offset 4 and \<^verbatim>\<open>next_free\<close> at offset 8.
\<close>

definition get_prev_free :: "state \<Rightarrow> addr \<Rightarrow> addr option" where
  "get_prev_free s bp = load s (bp + 4)"

definition get_next_free :: "state \<Rightarrow> addr \<Rightarrow> addr option" where
  "get_next_free s bp = load s (bp + 8)"

definition set_prev_free :: "addr \<Rightarrow> addr \<Rightarrow> state \<Rightarrow> state option" where
  "set_prev_free bp prv s = store (bp + 4) prv s"

definition set_next_free :: "addr \<Rightarrow> addr \<Rightarrow> state \<Rightarrow> state option" where
  "set_next_free bp nxt s = store (bp + 8) nxt s"

text \<open>
  The test \<^verbatim>\<open>get_next_free(x) == NULL && get_prev_free(y) == NULL\<close>: the second read is
  made only when the first link is null.
\<close>

definition both_null :: "state \<Rightarrow> addr \<Rightarrow> addr \<Rightarrow> bool option" where
  "both_null s x y =
     do { n \<leftarrow> get_next_free s x;
          if n = NULL then do { p \<leftarrow> get_prev_free s y; Some (p = NULL) }
          else Some False }"

definition free_list_prepend :: "addr \<Rightarrow> state \<Rightarrow> state option" where
  "free_list_prepend bp s =
     (if free_headp s = NULL then
        do { s1 \<leftarrow> set_next_free bp NULL (s\<lparr>free_headp := bp, free_tailp := bp\<rparr>);
             set_prev_free bp NULL s1 }
      else
        do { single \<leftarrow> both_null s (free_headp s) (free_tailp s);
             s1 \<leftarrow> (if single then set_prev_free (free_tailp s) bp s else Some s);
             s2 \<leftarrow> set_next_free bp (free_headp s1) s1;
             s3 \<leftarrow> set_prev_free (free_headp s2) bp s2;
             set_prev_free bp NULL (s3\<lparr>free_headp := bp\<rparr>) })"

definition free_list_append :: "addr \<Rightarrow> state \<Rightarrow> state option" where
  "free_list_append bp s =
     (if free_tailp s = NULL then
        do { s1 \<leftarrow> set_next_free bp NULL (s\<lparr>free_headp := bp, free_tailp := bp\<rparr>);
             set_prev_free bp NULL s1 }
      else
        do { single \<leftarrow> both_null s (free_headp s) (free_tailp s);
             s1 \<leftarrow> (if single then set_next_free (free_headp s) bp s else Some s);
             s2 \<leftarrow> set_next_free (free_tailp s1) bp s1;
             s3 \<leftarrow> set_prev_free bp (free_tailp s2) s2;
             set_next_free bp NULL (s3\<lparr>free_tailp := bp\<rparr>) })"

definition free_list_remove :: "addr \<Rightarrow> state \<Rightarrow> state option" where
  "free_list_remove bp s =
     do { single \<leftarrow> both_null s (free_headp s) (free_headp s);
          if single then Some (s\<lparr>free_headp := NULL, free_tailp := NULL\<rparr>)
          else if free_headp s = bp then
            do { nh \<leftarrow> get_next_free s (free_headp s);
                 set_prev_free nh NULL (s\<lparr>free_headp := nh\<rparr>) }
          else if free_tailp s = bp then
            do { pt \<leftarrow> get_prev_free s (free_tailp s);
                 set_next_free pt NULL (s\<lparr>free_tailp := pt\<rparr>) }
          else
            do { p \<leftarrow> get_prev_free s bp;
                 n \<leftarrow> get_next_free s bp;
                 s1 \<leftarrow> set_next_free p n s;
                 n' \<leftarrow> get_next_free s1 bp;
                 p' \<leftarrow> get_prev_free s1 bp;
                 set_prev_free n' p' s1 } }"

section \<open>Coalescing and heap growth\<close>

definition free_coalesce :: "addr \<Rightarrow> state \<Rightarrow> (addr \<times> state) option" where
  "free_coalesce bp s =
     do { sz \<leftarrow> get_size s bp;
          s1 \<leftarrow> set_header bp sz 0 s;
          s2 \<leftarrow> set_footer bp sz 0 s1;
          nxt \<leftarrow> get_next s2 bp;
          prv \<leftarrow> get_prev s2 bp;
          prev_alloc \<leftarrow> get_allocated s2 prv;
          next_alloc \<leftarrow> get_allocated s2 nxt;
          if prev_alloc \<noteq> 0 \<and> next_alloc \<noteq> 0 then
            do { s3 \<leftarrow> free_list_append bp s2;
                 Some (bp, s3) }
          else if prev_alloc \<noteq> 0 \<and> next_alloc = 0 then
            do { s3 \<leftarrow> free_list_remove nxt s2;
                 s4 \<leftarrow> free_list_append bp s3;
                 n1 \<leftarrow> get_size s4 nxt;
                 s5 \<leftarrow> set_header bp (sz + n1) 0 s4;
                 n2 \<leftarrow> get_size s5 nxt;
                 s6 \<leftarrow> set_footer bp (sz + n2) 0 s5;
                 Some (bp, s6) }
          else if prev_alloc = 0 \<and> next_alloc \<noteq> 0 then
            do { m \<leftarrow> get_size s2 prv;
                 s3 \<leftarrow> set_header prv (m + sz) 0 s2;
                 s4 \<leftarrow> set_footer prv (m + sz) 0 s3;
                 r \<leftarrow> get_prev s4 bp;
                 Some (r, s4) }
          else
            do { n1 \<leftarrow> get_size s2 prv;
                 n3 \<leftarrow> get_size s2 nxt;
                 s3 \<leftarrow> set_header prv (n1 + sz + n3) 0 s2;
                 s4 \<leftarrow> set_footer prv (n1 + sz + n3) 0 s3;
                 s5 \<leftarrow> free_list_remove nxt s4;
                 r \<leftarrow> get_prev s5 bp;
                 Some (r, s5) } }"

definition extend_heap :: "word32 \<Rightarrow> state \<Rightarrow> (addr \<times> state) option" where
  "extend_heap sz s =
     (case mem_sbrk sz s of (bp, s1) \<Rightarrow>
        if bp = - 1 then Some (NULL, s1)
        else
          do { let old_epilogue = bp - 4;
               s2 \<leftarrow> set_header old_epilogue sz 0 s1;
               s3 \<leftarrow> set_footer old_epilogue sz 0 s2;
               nxt \<leftarrow> get_next s3 old_epilogue;
               s4 \<leftarrow> set_header nxt 0 1 s3;
               free_coalesce old_epilogue s4 })"

text \<open>\<^verbatim>\<open>mm_init\<close> returns 0, or -1 when the region cannot be obtained.\<close>

definition mm_init :: "state \<Rightarrow> (word32 \<times> state) option" where
  "mm_init s =
     (case mem_sbrk 16 (s\<lparr>free_headp := NULL, free_tailp := NULL\<rparr>) of (new_region, s1) \<Rightarrow>
        if new_region = - 1 then Some (- 1, s1)
        else
          do { let s2 = s1\<lparr>heap_blocks := new_region\<rparr>;
               s3 \<leftarrow> set_header (heap_blocks s2) 0 0 s2;
               s4 \<leftarrow> set_header (heap_blocks s3 + 4) 8 1 s3;
               s5 \<leftarrow> set_footer (heap_blocks s4 + 4) 8 1 s4;
               s6 \<leftarrow> set_header (heap_blocks s5 + 12) 0 1 s5;
               let s7 = s6\<lparr>heap_blocks := heap_blocks s6 + 4\<rparr>;
               (extend, s8) \<leftarrow> extend_heap (push_bit 11 1) s7;
               if extend = NULL then Some (- 1, s8) else Some (0, s8) })"

section \<open>Allocation\<close>

text \<open>
  The loop of \<^verbatim>\<open>find_fit\<close> follows the links of the free list until it meets the null
  pointer; on a list with a cycle of blocks that are all too small it does not return,
  which is the value \<open>None\<close>.
\<close>

partial_function (option) find_fit_loop :: "state \<Rightarrow> word32 \<Rightarrow> addr \<Rightarrow> addr option" where
  "find_fit_loop s sz bp =
     (if bp = NULL then Some NULL
      else
        do { cur \<leftarrow> get_size s bp;
             if sz \<le>s cur then Some bp
             else do { nxt \<leftarrow> get_next_free s bp; find_fit_loop s sz nxt } })"

declare find_fit_loop.simps [code]

definition find_fit :: "state \<Rightarrow> word32 \<Rightarrow> addr option" where
  "find_fit s sz = find_fit_loop s sz (free_headp s)"

definition place :: "addr \<Rightarrow> word32 \<Rightarrow> state \<Rightarrow> (addr \<times> state) option" where
  "place bp sz s =
     do { a \<leftarrow> get_allocated s bp;
          s1 \<leftarrow> (if a = 0 then free_list_remove bp s else Some s);
          m \<leftarrow> get_size s1 bp;
          let n = sz;
          if 16 \<le>s m - n then
            if 100 <s n then
              do { s2 \<leftarrow> set_header bp (m - n) 0 s1;
                   s3 \<leftarrow> set_footer bp (m - n) 0 s2;
                   nxt \<leftarrow> get_next s3 bp;
                   s4 \<leftarrow> set_header nxt n 1 s3;
                   s5 \<leftarrow> set_footer nxt n 1 s4;
                   s6 \<leftarrow> free_list_append bp s5;
                   Some (nxt, s6) }
            else
              do { s2 \<leftarrow> set_header bp n 1 s1;
                   s3 \<leftarrow> set_footer bp n 1 s2;
                   nxt \<leftarrow> get_next s3 bp;
                   s4 \<leftarrow> set_header nxt (m - n) 0 s3;
                   s5 \<leftarrow> set_footer nxt (m - n) 0 s4;
                   s6 \<leftarrow> free_list_append nxt s5;
                   Some (bp, s6) }
          else
            do { s2 \<leftarrow> set_header bp m 1 s1;
                 s3 \<leftarrow> set_footer bp m 1 s2;
                 Some (bp, s3) } }"

text \<open>The division of C truncates towards zero.\<close>

definition sdiv32 :: "word32 \<Rightarrow> word32 \<Rightarrow> word32" where
  "sdiv32 a b = word_of_int (sint a sdiv sint b)"

definition required_block_size :: "word32 \<Rightarrow> word32" where
  "required_block_size payload_size = sdiv32 (payload_size + 8 + 7) 8 * 8"

definition mm_malloc :: "word32 \<Rightarrow> state \<Rightarrow> (addr \<times> state) option" where
  "mm_malloc sz s =
     (if sz = 0 then Some (NULL, s)
      else
        do { let required_size = required_block_size sz;
             fit \<leftarrow> find_fit s required_size;
             (freeBlock, s1) \<leftarrow>
               (if fit = NULL then extend_heap required_size s else Some (fit, s));
             (blk, s2) \<leftarrow> place freeBlock required_size s1;
             Some (get_payload_addr blk, s2) })"

definition mm_free :: "addr \<Rightarrow> state \<Rightarrow> state option" where
  "mm_free bp s =
     do { let bp_head = bp - 4;
          a \<leftarrow> get_allocated s bp_head;
          if a = 0 then Some s
          else do { (r, s1) \<leftarrow> free_coalesce bp_head s; Some s1 } }"

text \<open>
  \<^verbatim>\<open>mm_realloc\<close> has a path that reaches the end of the function without a
  \<^verbatim>\<open>return\<close> statement: the caller then receives no defined value.
\<close>

datatype retval = Ret addr | NoReturnValue

definition mm_realloc :: "addr \<Rightarrow> word32 \<Rightarrow> state \<Rightarrow> (retval \<times> state) option" where
  "mm_realloc ptr sz s =
     (if ptr = NULL then
        do { (p, s1) \<leftarrow> mm_malloc sz s; Some (Ret p, s1) }
      else if sz = 0 then
        do { s1 \<leftarrow> mm_free ptr s; Some (Ret NULL, s1) }
      else
        do { let bp = ptr - 4;
             m \<leftarrow> get_size s bp;
             let n = required_block_size sz;
             if m - n <s 24 \<and> 0 \<le>s m - n then Some (Ret ptr, s)
             else if 24 \<le>s m - n then
               do { (p, s1) \<leftarrow> mm_malloc sz s;
                    nxt \<leftarrow> get_next s1 bp;
                    s2 \<leftarrow> memcpy (get_payload_addr nxt) ptr n s1;
                    s3 \<leftarrow> free_list_append bp s2;
                    nxt' \<leftarrow> get_next s3 bp;
                    Some (Ret (get_payload_addr nxt'), s3) }
             else
               do { nxt \<leftarrow> get_next s bp;
                    next_size \<leftarrow> get_size s nxt;
                    if next_size = 0 then
                      do { (n', fr, s1) \<leftarrow>
                             (if n - m <s 24 then
                                do { (f, s1) \<leftarrow> extend_heap 24 s; Some (24 + m, f, s1) }
                              else
                                do { (f, s1) \<leftarrow> extend_heap (n - m) s; Some (n, f, s1) });
                           s2 \<leftarrow> free_list_remove fr s1;
                           s3 \<leftarrow> set_header bp n' 1 s2;
                           s4 \<leftarrow> set_footer bp n' 1 s3;
                           Some (Ret ptr, s4) }
                    else Some (NoReturnValue, s) } })"

section \<open>Observing the heap\<close>

text \<open>
  The two traversals of a heap checker. \<open>heap_scan\<close> walks the blocks by their sizes,
  from the prologue to the first header of size 0, and lists the address, the size and the
  allocated bit of each. \<open>free_list_scan\<close> follows the \<^verbatim>\<open>next_free\<close> links from the head
  of the free list to the null pointer. Both stop at an access outside the region. The
  number of steps is bounded by the number of cells of the region, so a scan of a
  well-formed heap is never cut short.
\<close>

fun scan_blocks :: "nat \<Rightarrow> state \<Rightarrow> addr \<Rightarrow> (addr \<times> word32 \<times> word32) list" where
  "scan_blocks 0 s a = []"
| "scan_blocks (Suc k) s a =
     (case (get_size s a, get_allocated s a) of
        (Some sz, Some al) \<Rightarrow> (a, sz, al) # (if sz = 0 then [] else scan_blocks k s (a + sz))
      | _ \<Rightarrow> [])"

fun scan_links :: "nat \<Rightarrow> state \<Rightarrow> addr \<Rightarrow> addr list" where
  "scan_links 0 s a = []"
| "scan_links (Suc k) s a =
     (if a = NULL then []
      else a # (case get_next_free s a of Some n \<Rightarrow> scan_links k s n | None \<Rightarrow> []))"

definition region_cells :: "state \<Rightarrow> nat" where
  "region_cells s = (unat (mem_brk s) - unat (mem_heap s)) div 4 + 1"

definition heap_scan :: "state \<Rightarrow> (addr \<times> word32 \<times> word32) list" where
  "heap_scan s = scan_blocks (region_cells s) s (heap_blocks s)"

definition free_list_scan :: "state \<Rightarrow> addr list" where
  "free_list_scan s = scan_links (region_cells s) s (free_headp s)"

definition free_blocks :: "state \<Rightarrow> addr list" where
  "free_blocks s = map fst (filter (\<lambda>(a, sz, al). al = 0) (heap_scan s))"

section \<open>Example heaps\<close>

text \<open>
  A region of 8192 bytes at address 4096, before \<^verbatim>\<open>mm_init\<close>; and the heap reached from
  it by \<^verbatim>\<open>mm_init\<close>, \<^verbatim>\<open>mm_malloc(64)\<close>, which returns 4112, and \<^verbatim>\<open>mm_malloc(64)\<close>, which
  returns 4184: the prologue at 4100, two allocated blocks of 72 bytes at 4108 and 4180, a
  free block of 1904 bytes at 4252, the only one on the free list, and the epilogue at 6156.
\<close>

definition arena :: state where
  "arena = \<lparr>mem = (\<lambda>_. 0), mem_heap = 4096, mem_brk = 4096, mem_max_addr = 12288,
             heap_blocks = NULL, free_headp = NULL, free_tailp = NULL\<rparr>"

definition two_blocks :: state where
  "two_blocks =
     \<lparr>mem = (\<lambda>_. 0)(4100 := 9, 4104 := 9, 4108 := 73, 4176 := 73, 4180 := 73, 4248 := 73,
                     4252 := 1904, 6152 := 1904, 6156 := 1),
      mem_heap = 4096, mem_brk = 6160, mem_max_addr = 12288,
      heap_blocks = 4100, free_headp = 4252, free_tailp = 4252\<rparr>"

section \<open>Evaluation on concrete heaps\<close>

lemma required_block_size_examples:
  "required_block_size 8 = 16" "required_block_size 64 = 72" "required_block_size 200 = 208"
  "required_block_size 1880 = 1888" "required_block_size 7000 = 7008"
  by (simp_all add: required_block_size_def sdiv32_def signed_divide_int_def)

lemma find_fit_loop_null: "find_fit_loop s sz NULL = Some NULL"
  by (subst find_fit_loop.simps) simp

lemma find_fit_loop_hit:
  "bp \<noteq> NULL \<Longrightarrow> get_size s bp = Some cur \<Longrightarrow> sz \<le>s cur \<Longrightarrow> find_fit_loop s sz bp = Some bp"
  by (subst find_fit_loop.simps) simp

lemma find_fit_loop_miss:
  "bp \<noteq> NULL \<Longrightarrow> get_size s bp = Some cur \<Longrightarrow> \<not> sz \<le>s cur \<Longrightarrow>
   get_next_free s bp = Some nxt \<Longrightarrow> find_fit_loop s sz bp = find_fit_loop s sz nxt"
  by (subst find_fit_loop.simps) simp

lemma memcpy_words_numeral:
  "memcpy_words (numeral k) dst src s =
     do { v \<leftarrow> load s src;
          s1 \<leftarrow> store dst v s;
          memcpy_words (pred_numeral k) (dst + 4) (src + 4) s1 }"
  by (simp add: numeral_eq_Suc)

lemma scan_blocks_numeral:
  "scan_blocks (numeral k) s a =
     (case (get_size s a, get_allocated s a) of
        (Some sz, Some al) \<Rightarrow>
          (a, sz, al) # (if sz = 0 then [] else scan_blocks (pred_numeral k) s (a + sz))
      | _ \<Rightarrow> [])"
  by (simp add: numeral_eq_Suc)

lemma scan_links_numeral:
  "scan_links (numeral k) s a =
     (if a = NULL then []
      else a # (case get_next_free s a of Some n \<Rightarrow> scan_links (pred_numeral k) s n
                | None \<Rightarrow> []))"
  by (simp add: numeral_eq_Suc)

lemmas eval_defs =
  mm_init_def mem_sbrk_def set_header_def set_footer_def store_def load_def in_heap_def
  get_size_def get_allocated_def extend_heap_def free_coalesce_def get_next_def get_prev_def
  free_list_append_def set_next_free_def set_prev_free_def get_next_free_def
  get_prev_free_def both_null_def word_sless_alt word_sle_eq mm_malloc_def find_fit_def
  place_def free_list_remove_def get_payload_addr_def mm_realloc_def memcpy_def mm_free_def
  required_block_size_examples find_fit_loop_null find_fit_loop_hit find_fit_loop_miss
  memcpy_words_numeral scan_blocks_numeral scan_links_numeral
  heap_scan_def free_list_scan_def free_blocks_def region_cells_def

lemma two_blocks_reached:
  "do { (r, s0) \<leftarrow> mm_init arena;
        (a, s1) \<leftarrow> mm_malloc 64 s0;
        (c, s2) \<leftarrow> mm_malloc 64 s1;
        Some (r, a, c, s2) } = Some (0, 4112, 4184, two_blocks)"
  by (simp add: eval_defs arena_def two_blocks_def) (auto simp: fun_eq_iff)

lemma two_blocks_scan:
  "heap_scan two_blocks = [(4100, 8, 1), (4108, 72, 1), (4180, 72, 1), (4252, 1904, 0), (6156, 0, 1)]"
  "free_list_scan two_blocks = [4252]"
  by (simp_all add: eval_defs two_blocks_def)

section \<open>Resizing\<close>

text \<open>
  C1. In the heap \<open>two_blocks\<close> the block at 4108 has size 72 and payload 4112, and
  \<^verbatim>\<open>mm_realloc(4112, 8)\<close> asks for a block of 16 bytes: the difference is 56, at least 24.
  The call does not shrink the block in place. It returns 4184, the payload of the next
  block on the heap, which is a live allocation; the header of the block at 4108 still
  says 72 bytes, allocated; no free block is carved at 4124; a fresh block of 16 bytes is
  allocated at 4252 and its address is dropped; and the block at 4108 is appended to the
  free list although it is allocated.
\<close>

theorem realloc_shrink_example:
  "map_option (\<lambda>(r, s). (r, get_size s 4108, get_allocated s 4108, heap_scan s, free_list_scan s))
     (mm_realloc 4112 8 two_blocks) =
   Some (Ret 4184, Some 72, Some 1,
         [(4100, 8, 1), (4108, 72, 1), (4180, 72, 1), (4252, 16, 1), (4268, 1888, 0),
          (6156, 0, 1)],
         [4268, 4108])"
  by (simp add: eval_defs two_blocks_def)

text \<open>
  C2. In the heap \<open>two_blocks\<close> the block at 4108 is followed by another block, not by
  the epilogue, and \<^verbatim>\<open>mm_realloc(4112, 200)\<close> asks for 208 bytes where the block has 72.
  The call allocates nothing, copies nothing and frees nothing: it reaches the end of the
  function without a \<^verbatim>\<open>return\<close> statement and leaves the state as it was.
\<close>

theorem realloc_grow_inner_example:
  "mm_realloc 4112 200 two_blocks = Some (NoReturnValue, two_blocks)"
  by (simp add: eval_defs two_blocks_def)

section \<open>Exhaustion of the region\<close>

text \<open>
  C3. In the heap \<open>two_blocks\<close> a request of 7000 bytes needs a block of 7008 bytes. No
  block of the free list fits and \<^verbatim>\<open>mem_sbrk\<close> fails, so \<^verbatim>\<open>extend_heap\<close> returns the null
  pointer. \<^verbatim>\<open>mm_malloc\<close> does not test it, as \<^verbatim>\<open>mm_init\<close> does: it passes the null pointer
  to \<^verbatim>\<open>place\<close>, which reads the header at address 0. The call has no result.
\<close>

theorem malloc_exhausted_example:
  "find_fit two_blocks (required_block_size 7000) = Some NULL \<and>
   mem_sbrk (required_block_size 7000) two_blocks = (- 1, two_blocks) \<and>
   extend_heap (required_block_size 7000) two_blocks = Some (NULL, two_blocks) \<and>
   place NULL (required_block_size 7000) two_blocks = None \<and>
   mm_malloc 7000 two_blocks = None"
  by (simp add: eval_defs two_blocks_def)

section \<open>The free list and the free blocks\<close>

text \<open>
  C4. After \<^verbatim>\<open>mm_realloc(4112, 8)\<close> in the heap \<open>two_blocks\<close> the free list holds the
  blocks at 4268 and 4108, and the only block of the heap whose allocated bit is 0 is the
  one at 4268: the block at 4108 is on the free list and allocated.
\<close>

theorem free_list_after_realloc_shrink:
  "map_option (\<lambda>(r, s). (free_list_scan s, free_blocks s)) (mm_realloc 4112 8 two_blocks) =
   Some ([4268, 4108], [4268])"
  by (simp add: eval_defs two_blocks_def)

text \<open>
  C5. The calls \<^verbatim>\<open>mm_realloc(4112, 8)\<close>, which returns 4184, \<^verbatim>\<open>mm_malloc(1880)\<close>,
  \<^verbatim>\<open>mm_free(4184)\<close> and \<^verbatim>\<open>mm_malloc(8)\<close> in the heap \<open>two_blocks\<close> leave two free blocks
  side by side, at 4124 (56 bytes) and at 4180 (72 bytes): the last call finds the
  allocated block at 4108 on the free list and splits it.
\<close>

theorem adjacent_free_after_realloc_shrink:
  "do { (r, s1) \<leftarrow> mm_realloc 4112 8 two_blocks;
        (d, s2) \<leftarrow> mm_malloc 1880 s1;
        s3 \<leftarrow> mm_free 4184 s2;
        (e, s4) \<leftarrow> mm_malloc 8 s3;
        Some (r, d, e, heap_scan s4, free_list_scan s4) } =
   Some (Ret 4184, 4272, 4112,
         [(4100, 8, 1), (4108, 16, 1), (4124, 56, 0), (4180, 72, 0), (4252, 16, 1),
          (4268, 1888, 1), (6156, 0, 1)],
         [4108, 4180, 4124])"
  by (simp add: eval_defs two_blocks_def)

section \<open>Zero-size requests\<close>

text \<open>
  C9. \<^verbatim>\<open>mm_malloc\<close> called with size 0 returns the null pointer and leaves the whole
  state as it was: the memory of the region, its bounds, and the head and tail of the free
  list.
\<close>

theorem mm_malloc_zero: "mm_malloc 0 s = Some (NULL, s)"
  by (simp add: mm_malloc_def)

end
